theory Spec2Isabelle
  imports Main "HOL-Library.Sublist"
begin

text \<open>
  An embedding of \<^verbatim>\<open>create-agent.mjs\<close>. \<^verbatim>\<open>createAgent\<close> is a function from an environment,
  a request and a world to an outcome and a world. The environment fixes what every
  external call of a run does (a command throws or prints, a directory or file operation
  fails or not); the world holds the directories, the files, the two JSON documents and the
  list of commands executed so far. An exception is a value: \<open>Inl\<close> of its message.
\<close>

section \<open>Strings and identifier derivation\<close>

text \<open>
  A JavaScript string is modelled as a \<^typ>\<open>string\<close>, one \<^typ>\<open>char\<close> per code unit.
  The case mappings are the ASCII ones: \<open>A\<close>..\<open>Z\<close> and \<open>a\<close>..\<open>z\<close> are exchanged, every
  other code unit is left as it is.
\<close>

definition toLowerCase_char :: "char \<Rightarrow> char" where
  "toLowerCase_char c =
     (case map_of (zip ''ABCDEFGHIJKLMNOPQRSTUVWXYZ'' ''abcdefghijklmnopqrstuvwxyz'') c of
        None \<Rightarrow> c | Some d \<Rightarrow> d)"

definition toUpperCase_char :: "char \<Rightarrow> char" where
  "toUpperCase_char c =
     (case map_of (zip ''abcdefghijklmnopqrstuvwxyz'' ''ABCDEFGHIJKLMNOPQRSTUVWXYZ'') c of
        None \<Rightarrow> c | Some d \<Rightarrow> d)"

definition toLowerCase :: "string \<Rightarrow> string" where
  "toLowerCase s = map toLowerCase_char s"

definition toUpperCase :: "string \<Rightarrow> string" where
  "toUpperCase s = map toUpperCase_char s"

text \<open>\<^verbatim>\<open>s.charAt(0)\<close> is the empty string on the empty string; \<^verbatim>\<open>s.slice(1)\<close> drops one unit.\<close>

definition charAt0 :: "string \<Rightarrow> string" where
  "charAt0 s = (case s of [] \<Rightarrow> [] | c # _ \<Rightarrow> [c])"

definition slice1 :: "string \<Rightarrow> string" where
  "slice1 s = drop 1 s"

text \<open>
  The character class of the regular expression \<^verbatim>\<open>/[^a-z0-9-]/g\<close>: a code unit matches
  when it lies in none of the ranges \<open>a-z\<close>, \<open>0-9\<close> and is not the hyphen.
\<close>

definition in_range :: "char \<Rightarrow> char \<Rightarrow> char \<Rightarrow> bool" where
  "in_range lo hi c = ((of_char lo :: nat) \<le> of_char c \<and> (of_char c :: nat) \<le> of_char hi)"

definition non_id_unit :: "char \<Rightarrow> bool" where
  "non_id_unit c =
     (\<not> (in_range CHR ''a'' CHR ''z'' c \<or> in_range CHR ''0'' CHR ''9'' c \<or> c = CHR ''-''))"

text \<open>\<^verbatim>\<open>s.replace(/[^a-z0-9-]/g, '')\<close>: every match is replaced by the empty string.\<close>

fun replace_non_id :: "string \<Rightarrow> string" where
  "replace_non_id [] = []"
| "replace_non_id (c # cs) =
     (if non_id_unit c then [] @ replace_non_id cs else c # replace_non_id cs)"

definition agentId :: "string \<Rightarrow> string" where
  "agentId name = replace_non_id (toLowerCase name)"

definition displayName :: "string \<Rightarrow> string" where
  "displayName name = toUpperCase (charAt0 name) @ slice1 name"





section \<open>The environment of a run\<close>

text \<open>
  Paths are lists of segments; \<^verbatim>\<open>join(p, a, b)\<close> appends segments. The module constants
  \<^verbatim>\<open>DIR\<close>, \<^verbatim>\<open>BASE_DIR\<close>, \<^verbatim>\<open>DEFAULT_WORKSPACE\<close> and the variable \<^verbatim>\<open>HOME\<close> are resolved before
  \<^verbatim>\<open>createAgent\<close> runs and are parameters here, as is the date.
\<close>

type_synonym path = "string list"

definition join :: "path \<Rightarrow> string list \<Rightarrow> path" where
  "join p segs = p @ segs"

text \<open>\<^verbatim>\<open>execSync\<close> either throws an error with a message or returns the standard output.\<close>

datatype 'a exec = Throws string | Output 'a

text \<open>\<^verbatim>\<open>JSON.parse\<close> either throws a syntax error or returns the parsed document.\<close>

datatype 'a parsed = SyntaxError string | Parsed 'a

text \<open>A JSON file on disk: reading it throws, parsing it throws, or it holds a document.\<close>

datatype 'a jfile = Unreadable string | Malformed string | Json 'a

text \<open>An element of the output of \<^verbatim>\<open>clawdbot agents list --json\<close>.\<close>

record listed_agent =
  listed_id :: string

text \<open>The body of the provider's \<^verbatim>\<open>getMe\<close> answer: \<open>ok\<close> and \<open>result.username\<close>, each optional.\<close>

record bot_result =
  username :: "string option"

record bot_info =
  ok :: "bool option"
  result :: "bot_result option"

record env =
  DIR :: path
  BASE_DIR :: path
  DEFAULT_WORKSPACE :: path
  HOME :: path
  today :: string
  list_exec :: "listed_agent list parsed exec"
  mkdir_error :: "path \<Rightarrow> string option"
  write_error :: "path \<Rightarrow> string option"
  copy_error :: "path \<Rightarrow> path \<Rightarrow> string option"
  hostname_scaffold :: "string exec"
  add_exec :: "string exec"
  identity_exec :: "string exec"
  getMe_exec :: "bot_info parsed exec"
  hostname_dashboard :: "string exec"
  pgrep_exec :: "string exec"
  kill_exec :: "string exec"
  event_exec :: "string exec"

text \<open>The external commands a run executes, in order, are recorded in the world.\<close>

datatype command =
    AgentsList
  | Hostname
  | AgentsAdd string path string
  | SetIdentity string string string
  | GetMe string
  | Pgrep
  | Kill string
  | SystemEvent

section \<open>The gateway configuration and the dashboard registry\<close>

text \<open>
  The documents are modelled at the schema the workflow reads and writes. A key the code
  tests for presence (\<^verbatim>\<open>!x.k\<close>, \<^verbatim>\<open>x.k?.\<close>) is optional; objects and arrays are truthy, so
  an absent or null key is \<open>None\<close>. The accounts object is a map from account name to
  account. Documents of another shape (a list where an object is expected, a null
  element in a list of agents) are not values of these types.
\<close>

record subagents_cfg =
  allowAgents :: "string list option"

record agent_cfg =
  agent_id :: string
  subagents :: "subagents_cfg option"

record agents_cfg =
  agent_list :: "agent_cfg list option"

record account_cfg =
  enabled :: bool
  dmPolicy :: string
  botToken :: string
  groupPolicy :: string
  streamMode :: string

record telegram_cfg =
  telegram_enabled :: "bool option"
  accounts :: "(string \<rightharpoonup> account_cfg) option"

record channels_cfg =
  telegram :: "telegram_cfg option"

record match_cfg =
  channel :: "string option"
  accountId :: "string option"

record binding_cfg =
  agentId_of :: string
  match_of :: "match_cfg option"

record a2a_cfg =
  a2a_enabled :: "bool option"

record tools_cfg =
  agentToAgent :: "a2a_cfg option"

record auth_cfg =
  auth_token :: "string option"

record gateway_cfg =
  gateway_port :: "nat option"
  auth :: "auth_cfg option"

record config =
  agents :: "agents_cfg option"
  channels :: "channels_cfg option"
  bindings :: "binding_cfg list option"
  tools :: "tools_cfg option"
  gateway :: "gateway_cfg option"

record reg_entry =
  reg_id :: string
  reg_name :: string
  reg_emoji :: string
  reg_host :: string
  reg_port :: nat
  reg_token :: string
  reg_workspace :: path
  reg_machine :: string

record registry =
  reg_agents :: "reg_entry list option"

section \<open>The world: file system, documents, executed commands\<close>

text \<open>
  The template documents are fixed text with holes; a document is recorded by its template
  and the values put into the holes. \<open>Other\<close> is any other file content.
\<close>

datatype content =
    SoulDoc string "string option"
  | IdentityDoc string string string
  | MemoryDoc string string string string
  | TasksDoc
  | ToolsDoc string string
  | HeartbeatDoc
  | BootstrapDoc string string string string
  | GitignoreDoc
  | Other string

record world =
  dirs :: "path set"
  files :: "path \<rightharpoonup> content"
  config_file :: "config jfile"
  registry_file :: "registry jfile"
  calls :: "command list"

definition existsSync :: "world \<Rightarrow> path \<Rightarrow> bool" where
  "existsSync w p = (p \<in> dom (files w) \<or> p \<in> dirs w)"

text \<open>\<^verbatim>\<open>mkdirSync(p, {recursive: true})\<close> creates \<open>p\<close> and its missing ancestors, or throws.\<close>

definition mkdirSync :: "env \<Rightarrow> path \<Rightarrow> world \<Rightarrow> (string + unit) \<times> world" where
  "mkdirSync e p w =
     (case mkdir_error e p of
        Some m \<Rightarrow> (Inl m, w)
      | None \<Rightarrow> (Inr (), w\<lparr>dirs := dirs w \<union> set (prefixes p)\<rparr>))"

definition writeFileSync :: "env \<Rightarrow> path \<Rightarrow> content \<Rightarrow> world \<Rightarrow> (string + unit) \<times> world" where
  "writeFileSync e p c w =
     (case write_error e p of
        Some m \<Rightarrow> (Inl m, w)
      | None \<Rightarrow> (Inr (), w\<lparr>files := (files w)(p \<mapsto> c)\<rparr>))"

text \<open>\<^verbatim>\<open>copyFileSync\<close> throws on a source that is not a regular file.\<close>

definition copyFileSync :: "env \<Rightarrow> path \<Rightarrow> path \<Rightarrow> world \<Rightarrow> (string + unit) \<times> world" where
  "copyFileSync e src dst w =
     (case copy_error e src dst of
        Some m \<Rightarrow> (Inl m, w)
      | None \<Rightarrow>
          (case files w src of
             None \<Rightarrow> (Inl ''EISDIR: illegal operation on a directory'', w)
           | Some c \<Rightarrow> (Inr (), w\<lparr>files := (files w)(dst \<mapsto> c)\<rparr>)))"

definition writeIfMissing :: "env \<Rightarrow> path \<Rightarrow> content \<Rightarrow> world \<Rightarrow> (string + bool) \<times> world" where
  "writeIfMissing e p c w =
     (if \<not> existsSync w p then
        (case writeFileSync e p c w of
           (Inl m, w') \<Rightarrow> (Inl m, w')
         | (Inr _, w') \<Rightarrow> (Inr True, w'))
      else (Inr False, w))"

section \<open>Requests, step log and results\<close>

record request =
  name :: string
  emoji :: string
  soul :: "string option"
  model :: string
  telegramToken :: "string option"

text \<open>A string is truthy when it is present and not empty.\<close>

definition truthy :: "string option \<Rightarrow> bool" where
  "truthy s = (case s of None \<Rightarrow> False | Some t \<Rightarrow> t \<noteq> [])"

text \<open>
  The lines of the step log, one constructor per line the source pushes, with the values
  the line interpolates. The lines the source marks with a warning sign are the six
  recognised by \<open>is_warning\<close>.
\<close>

datatype step =
    NameInvalid
  | AgentExists string
  | CreatingWorkspace string
  | WritingIdentityFiles
  | RegisteringWithGateway
  | AgentRegistered
  | RegistrationWarning string
  | SettingIdentity string
  | ConfiguringPermissions
  | VerifyingToken
  | TokenInvalid
  | Verified string
  | VerificationFailed string
  | PermissionsConfigured
  | TelegramBound string
  | BindingSkipped
  | TelegramSkipped
  | ConfigUpdateWarning string
  | AddingToControl
  | DashboardUpdated
  | DashboardWarning string
  | ReloadingConfig
  | ConfigReloaded
  | ReloadSignalSent
  | CouldNotSignal
  | Ready string


record success =
  res_id :: string
  res_name :: string
  res_emoji :: string
  res_workspace :: path
  res_model :: string
  hasTelegram :: bool
  message :: string
  res_steps :: "step list"

text \<open>
  \<open>Failure\<close> is the object with \<^verbatim>\<open>ok: false\<close>, \<open>Success\<close> the one with \<^verbatim>\<open>ok: true\<close>.
  An exception that leaves \<^verbatim>\<open>createAgent\<close> rejects the promise: \<open>Rejected\<close>.
\<close>

datatype result = Failure string "step list" | Success success

datatype outcome = Returned result | Rejected string

fun result_ok :: "outcome \<Rightarrow> bool" where
  "result_ok (Returned (Success _)) = True"
| "result_ok _ = False"

fun steps_of :: "outcome \<Rightarrow> step list" where
  "steps_of (Returned (Success r)) = res_steps r"
| "steps_of (Returned (Failure _ ss)) = ss"
| "steps_of (Rejected _) = []"

section \<open>Existence guard and workspace scaffolding\<close>

definition run_command :: "command \<Rightarrow> world \<Rightarrow> world" where
  "run_command c w = w\<lparr>calls := calls w @ [c]\<rparr>"

text \<open>
  Lines 56 to 62: any exception of the query, of the parse or of the search is swallowed.
\<close>

definition agent_exists :: "env \<Rightarrow> string \<Rightarrow> bool" where
  "agent_exists e i =
     (case list_exec e of
        Throws _ \<Rightarrow> False
      | Output (SyntaxError _) \<Rightarrow> False
      | Output (Parsed as) \<Rightarrow> list_ex (\<lambda>a. listed_id a = i) as)"

fun mkdirs :: "env \<Rightarrow> path list \<Rightarrow> world \<Rightarrow> (string + unit) \<times> world" where
  "mkdirs e [] w = (Inr (), w)"
| "mkdirs e (p # ps) w =
     (case mkdirSync e p w of
        (Inl m, w') \<Rightarrow> (Inl m, w')
      | (Inr _, w') \<Rightarrow> mkdirs e ps w')"

fun write_docs :: "env \<Rightarrow> (path \<times> content) list \<Rightarrow> world \<Rightarrow> (string + unit) \<times> world" where
  "write_docs e [] w = (Inr (), w)"
| "write_docs e ((p, c) # ds) w =
     (case writeIfMissing e p c w of
        (Inl m, w') \<Rightarrow> (Inl m, w')
      | (Inr _, w') \<Rightarrow> write_docs e ds w')"

text \<open>Lines 184 to 191, the loop over the shared files.\<close>

fun copy_shared :: "env \<Rightarrow> path \<Rightarrow> string list \<Rightarrow> world \<Rightarrow> (string + unit) \<times> world" where
  "copy_shared e ws [] w = (Inr (), w)"
| "copy_shared e ws (file # fs) w =
     (let src = join (DEFAULT_WORKSPACE e) [file]; dst = join ws [file] in
      if existsSync w src \<and> \<not> existsSync w dst then
        (case copyFileSync e src dst w of
           (Inl m, w') \<Rightarrow> (Inl m, w')
         | (Inr _, w') \<Rightarrow> copy_shared e ws fs w')
      else copy_shared e ws fs w)"

definition is_space :: "char \<Rightarrow> bool" where
  "is_space c = (c \<in> set [CHR 0x20, CHR 0x09, CHR 0x0A, CHR 0x0B, CHR 0x0C, CHR 0x0D])"

definition trim :: "string \<Rightarrow> string" where
  "trim s = rev (dropWhile is_space (rev (dropWhile is_space s)))"

definition soulContent :: "request \<Rightarrow> content" where
  "soulContent r =
     (if truthy (soul r) then SoulDoc (displayName (name r)) (soul r)
      else SoulDoc (displayName (name r)) None)"

definition vibe :: "request \<Rightarrow> string" where
  "vibe r = (case soul r of None \<Rightarrow> ''(customize me)''
             | Some s \<Rightarrow> if s = [] then ''(customize me)'' else s)"

text \<open>
  The documents of lines 116 to 144 and of lines 146 to 181, with their texts. The text of
  \<^verbatim>\<open>TOOLS.md\<close> holds the trimmed output of the \<^verbatim>\<open>hostname\<close> command.
\<close>

definition first_docs :: "env \<Rightarrow> request \<Rightarrow> (path \<times> content) list" where
  "first_docs e r =
     (let i = agentId (name r); dn = displayName (name r);
          workspace = join (BASE_DIR e) [i] in
      [(join workspace [''SOUL.md''], soulContent r),
       (join workspace [''IDENTITY.md''], IdentityDoc dn (vibe r) (emoji r)),
       (join workspace [''MEMORY.md''], MemoryDoc dn (today e) (model r) i),
       (join workspace [''TASKS.md''], TasksDoc)])"

definition later_docs :: "env \<Rightarrow> request \<Rightarrow> string \<Rightarrow> (path \<times> content) list" where
  "later_docs e r h =
     (let i = agentId (name r); dn = displayName (name r);
          workspace = join (BASE_DIR e) [i] in
      [(join workspace [''TOOLS.md''], ToolsDoc (trim h) (today e)),
       (join workspace [''HEARTBEAT.md''], HeartbeatDoc),
       (join workspace [''BOOTSTRAP.md''], BootstrapDoc dn (emoji r) (today e) (model r)),
       (join workspace [''.gitignore''], GitignoreDoc)])"

text \<open>
  Lines 76 to 191. Nothing here is inside a \<^verbatim>\<open>try\<close>: an exception of a write, of the
  \<^verbatim>\<open>hostname\<close> command (run while the text of \<^verbatim>\<open>TOOLS.md\<close> is built, before that document's
  existence test) or of a copy leaves \<^verbatim>\<open>createAgent\<close>.
\<close>

definition scaffold :: "env \<Rightarrow> request \<Rightarrow> world \<Rightarrow> (string + unit) \<times> world" where
  "scaffold e r w =
     (case write_docs e (first_docs e r) w of
        (Inl m, w1) \<Rightarrow> (Inl m, w1)
      | (Inr _, w1) \<Rightarrow>
          (case hostname_scaffold e of
             Throws m \<Rightarrow> (Inl m, run_command Hostname w1)
           | Output h \<Rightarrow>
               (case write_docs e (later_docs e r h) (run_command Hostname w1) of
                  (Inl m, w2) \<Rightarrow> (Inl m, w2)
                | (Inr _, w2) \<Rightarrow>
                    copy_shared e (join (BASE_DIR e) [agentId (name r)])
                      [''AGENTS.md'', ''USER.md''] w2)))"

section \<open>Gateway registration, identity, token verification\<close>

text \<open>Lines 194 to 201.\<close>

definition register_agent :: "env \<Rightarrow> request \<Rightarrow> step list \<Rightarrow> world \<Rightarrow> step list \<times> world" where
  "register_agent e r steps w =
     (let i = agentId (name r); workspace = join (BASE_DIR e) [i];
          w' = run_command (AgentsAdd i workspace (model r)) w in
      case add_exec e of
        Output _ \<Rightarrow> (steps @ [RegisteringWithGateway, AgentRegistered], w')
      | Throws m \<Rightarrow> (steps @ [RegisteringWithGateway, RegistrationWarning (take 100 m)], w'))"

text \<open>Lines 204 to 207: the handler of the identity call is empty.\<close>

definition set_identity :: "env \<Rightarrow> request \<Rightarrow> step list \<Rightarrow> world \<Rightarrow> step list \<times> world" where
  "set_identity e r steps w =
     (let i = agentId (name r); dn = displayName (name r);
          w' = run_command (SetIdentity i dn (emoji r)) w in
      case identity_exec e of
        Output _ \<Rightarrow> (steps @ [SettingIdentity (emoji r)], w')
      | Throws _ \<Rightarrow> (steps @ [SettingIdentity (emoji r)], w'))"

text \<open>
  Lines 212 to 231. \<open>Invalid\<close> is the early return; \<open>Proceed v\<close> carries \<^verbatim>\<open>telegramVerified\<close>.
  A body whose \<open>ok\<close> is truthy but which has no \<open>result\<close> makes the read of the user name
  throw inside the \<^verbatim>\<open>try\<close>.
\<close>

datatype verification = Invalid "step list" | Proceed bool "step list"

definition verify_token :: "env \<Rightarrow> request \<Rightarrow> step list \<Rightarrow> world \<Rightarrow> verification \<times> world" where
  "verify_token e r steps w =
     (case telegramToken r of
        None \<Rightarrow> (Proceed False steps, w)
      | Some tok \<Rightarrow>
          if tok = [] then (Proceed False steps, w)
          else
            (let steps1 = steps @ [VerifyingToken]; w' = run_command (GetMe tok) w in
             case getMe_exec e of
               Throws m \<Rightarrow> (Proceed False (steps1 @ [VerificationFailed (take 80 m)]), w')
             | Output (SyntaxError m) \<Rightarrow>
                 (Proceed False (steps1 @ [VerificationFailed (take 80 m)]), w')
             | Output (Parsed botInfo) \<Rightarrow>
                 if ok botInfo \<noteq> Some True then (Invalid (steps1 @ [TokenInvalid]), w')
                 else
                   (case result botInfo of
                      None \<Rightarrow>
                        (Proceed False (steps1 @ [VerificationFailed
                           (take 80 ''Cannot read properties of undefined (reading username)'')]),
                         w')
                    | Some res \<Rightarrow>
                        (Proceed True (steps1 @ [Verified
                           (case username res of None \<Rightarrow> ''undefined'' | Some u \<Rightarrow> u)]),
                         w'))))"

section \<open>The configuration update\<close>

text \<open>\<^verbatim>\<open>list.find(p)\<close> followed by an update in place of the element found.\<close>

fun update_first :: "('a \<Rightarrow> bool) \<Rightarrow> ('a \<Rightarrow> 'a) \<Rightarrow> 'a list \<Rightarrow> 'a list" where
  "update_first p f [] = []"
| "update_first p f (x # xs) = (if p x then f x # xs else x # update_first p f xs)"

text \<open>Lines 241 to 245, on the agent found.\<close>

definition grant_spawn :: "string \<Rightarrow> agent_cfg \<Rightarrow> agent_cfg" where
  "grant_spawn i mainAgent =
     (let sub = (case subagents mainAgent of None \<Rightarrow> \<lparr>allowAgents = None\<rparr> | Some s \<Rightarrow> s);
          allow = (case allowAgents sub of None \<Rightarrow> [] | Some l \<Rightarrow> l)
      in mainAgent\<lparr>subagents :=
           Some (sub\<lparr>allowAgents := Some (if i \<in> set allow then allow else allow @ [i])\<rparr>)\<rparr>)"

text \<open>Lines 251 and 252, on the agent found.\<close>

definition spawn_back :: "agent_cfg \<Rightarrow> agent_cfg" where
  "spawn_back newAgent =
     (let sub = (case subagents newAgent of None \<Rightarrow> \<lparr>allowAgents = None\<rparr> | Some s \<Rightarrow> s)
      in newAgent\<lparr>subagents := Some (sub\<lparr>allowAgents := Some [''main'']\<rparr>)\<rparr>)"

text \<open>
  Lines 239 to 253 on the agent list: the first agent named \<open>main\<close> is granted the new
  identifier, then the first agent with the new identifier is pointed back to \<open>main\<close>.
\<close>

definition agents_step :: "string \<Rightarrow> agent_cfg list \<Rightarrow> agent_cfg list" where
  "agents_step i l =
     update_first (\<lambda>a. agent_id a = i) spawn_back
       (update_first (\<lambda>a. agent_id a = ''main'') (grant_spawn i) l)"

text \<open>Both searches go through \<^verbatim>\<open>config.agents?.list?\<close>.\<close>

definition cross_agent :: "string \<Rightarrow> config \<Rightarrow> config" where
  "cross_agent i c =
     (case agents c of
        None \<Rightarrow> c
      | Some ag \<Rightarrow>
          (case agent_list ag of
             None \<Rightarrow> c
           | Some l \<Rightarrow> c\<lparr>agents := Some (ag\<lparr>agent_list := Some (agents_step i l)\<rparr>)\<rparr>))"

definition new_account :: "string \<Rightarrow> account_cfg" where
  "new_account tok =
     \<lparr>enabled = True, dmPolicy = ''pairing'', botToken = tok,
      groupPolicy = ''allowlist'', streamMode = ''partial''\<rparr>"

text \<open>The test of line 271.\<close>

definition binds :: "string \<Rightarrow> binding_cfg \<Rightarrow> bool" where
  "binds i b =
     (agentId_of b = i
      \<and> (case match_of b of None \<Rightarrow> None | Some m \<Rightarrow> channel m) = Some ''telegram''
      \<and> (case match_of b of None \<Rightarrow> None | Some m \<Rightarrow> accountId m) = Some i)"

definition new_binding :: "string \<Rightarrow> binding_cfg" where
  "new_binding i =
     \<lparr>agentId_of = i, match_of = Some \<lparr>channel = Some ''telegram'', accountId = Some i\<rparr>\<rparr>"

text \<open>Lines 256 to 279.\<close>

definition bind_telegram :: "string \<Rightarrow> bool \<Rightarrow> string \<Rightarrow> config \<Rightarrow> config" where
  "bind_telegram i telegramVerified tok c =
     (if telegramVerified then
        (let ch = (case channels c of None \<Rightarrow> \<lparr>telegram = None\<rparr> | Some x \<Rightarrow> x);
             tg = (case telegram ch of
                     None \<Rightarrow> \<lparr>telegram_enabled = Some True, accounts = None\<rparr>
                   | Some x \<Rightarrow> x);
             acc = (case accounts tg of None \<Rightarrow> Map.empty | Some x \<Rightarrow> x);
             bs = (case bindings c of None \<Rightarrow> [] | Some x \<Rightarrow> x)
         in c\<lparr>channels := Some (ch\<lparr>telegram :=
                 Some (tg\<lparr>accounts := Some (acc(i \<mapsto> new_account tok))\<rparr>)\<rparr>),
              bindings := Some (if list_ex (binds i) bs then bs else bs @ [new_binding i])\<rparr>)
      else c)"

text \<open>Lines 286 to 288.\<close>

definition enable_agentToAgent :: "config \<Rightarrow> config" where
  "enable_agentToAgent c =
     (let t = (case tools c of None \<Rightarrow> \<lparr>agentToAgent = None\<rparr> | Some x \<Rightarrow> x);
          a = (case agentToAgent t of None \<Rightarrow> \<lparr>a2a_enabled = None\<rparr> | Some x \<Rightarrow> x)
      in c\<lparr>tools := Some (t\<lparr>agentToAgent := Some (a\<lparr>a2a_enabled := Some True\<rparr>)\<rparr>)\<rparr>)"

text \<open>
  The changes made to the loaded object between the read of line 236 and the write of
  line 290.
\<close>

definition mutate_config :: "string \<Rightarrow> bool \<Rightarrow> string \<Rightarrow> config \<Rightarrow> config" where
  "mutate_config i telegramVerified tok c =
     enable_agentToAgent (bind_telegram i telegramVerified tok (cross_agent i c))"

definition configPath :: "env \<Rightarrow> path" where
  "configPath e = join (HOME e) [''.clawdbot'', ''clawdbot.json'']"

definition read_json :: "'a jfile \<Rightarrow> string + 'a" where
  "read_json f = (case f of Unreadable m \<Rightarrow> Inl m | Malformed m \<Rightarrow> Inl m | Json d \<Rightarrow> Inr d)"

definition token_of :: "request \<Rightarrow> string" where
  "token_of r = (case telegramToken r of None \<Rightarrow> [] | Some t \<Rightarrow> t)"

text \<open>
  Lines 234 to 297. The session directory is created after the binding and before the
  messaging flag is set; the file is written once, at the end.
\<close>

definition update_config ::
  "env \<Rightarrow> request \<Rightarrow> bool \<Rightarrow> step list \<Rightarrow> world \<Rightarrow> step list \<times> world" where
  "update_config e r telegramVerified steps w =
     (let i = agentId (name r) in
      case read_json (config_file w) of
        Inl m \<Rightarrow> (steps @ [ConfigUpdateWarning (take 80 m)], w)
      | Inr c \<Rightarrow>
          (let c1 = bind_telegram i telegramVerified (token_of r) (cross_agent i c) in
           case mkdirSync e (join (HOME e) [''.clawdbot'', ''agents'', i, ''sessions'']) w of
             (Inl m, w1) \<Rightarrow> (steps @ [ConfigUpdateWarning (take 80 m)], w1)
           | (Inr _, w1) \<Rightarrow>
               (let c2 = enable_agentToAgent c1 in
                case write_error e (configPath e) of
                  Some m \<Rightarrow> (steps @ [ConfigUpdateWarning (take 80 m)], w1)
                | None \<Rightarrow>
                    (steps @ [PermissionsConfigured,
                        if telegramVerified then TelegramBound i
                        else if truthy (telegramToken r) then BindingSkipped
                        else TelegramSkipped],
                     w1\<lparr>config_file := Json c2\<rparr>))))"

section \<open>Dashboard registry and hot reload\<close>

definition registryPath :: "env \<Rightarrow> path" where
  "registryPath e = join (DIR e) [''agents.json'']"

text \<open>\<^verbatim>\<open>config.gateway?.port || 18789\<close> and \<^verbatim>\<open>config.gateway?.auth?.token || ''\<close>.\<close>

definition port_of :: "config \<Rightarrow> nat" where
  "port_of c =
     (case gateway c of
        None \<Rightarrow> 18789
      | Some g \<Rightarrow> (case gateway_port g of None \<Rightarrow> 18789
                   | Some n \<Rightarrow> if n = 0 then 18789 else n))"

definition gateway_token_of :: "config \<Rightarrow> string" where
  "gateway_token_of c =
     (case gateway c of
        None \<Rightarrow> []
      | Some g \<Rightarrow> (case auth g of None \<Rightarrow> []
                   | Some a \<Rightarrow> (case auth_token a of None \<Rightarrow> [] | Some t \<Rightarrow> t)))"

text \<open>Lines 300 to 322.\<close>

definition update_dashboard :: "env \<Rightarrow> request \<Rightarrow> step list \<Rightarrow> world \<Rightarrow> step list \<times> world" where
  "update_dashboard e r steps w =
     (let i = agentId (name r); steps1 = steps @ [AddingToControl] in
      case read_json (registry_file w) of
        Inl m \<Rightarrow> (steps1 @ [DashboardWarning (take 80 m)], w)
      | Inr dashConfig \<Rightarrow>
          (case reg_agents dashConfig of
             None \<Rightarrow>
               (steps1 @ [DashboardWarning
                  (take 80 ''Cannot read properties of undefined (reading some)'')], w)
           | Some known \<Rightarrow>
               if list_ex (\<lambda>a. reg_id a = i) known then (steps1 @ [DashboardUpdated], w)
               else
                 (case read_json (config_file w) of
                    Inl m \<Rightarrow> (steps1 @ [DashboardWarning (take 80 m)], w)
                  | Inr c \<Rightarrow>
                      (case hostname_dashboard e of
                         Throws m \<Rightarrow>
                           (steps1 @ [DashboardWarning (take 80 m)], run_command Hostname w)
                       | Output h \<Rightarrow>
                           (case write_error e (registryPath e) of
                              Some m \<Rightarrow>
                                (steps1 @ [DashboardWarning (take 80 m)],
                                 run_command Hostname w)
                            | None \<Rightarrow>
                                (steps1 @ [DashboardUpdated],
                                 (run_command Hostname w)\<lparr>registry_file := Json
                                   (dashConfig\<lparr>reg_agents := Some (known @
                                      [\<lparr>reg_id = i, reg_name = displayName (name r),
                                        reg_emoji = emoji r, reg_host = ''127.0.0.1'',
                                        reg_port = port_of c,
                                        reg_token = gateway_token_of c,
                                        reg_workspace = join (BASE_DIR e) [i],
                                        reg_machine = trim h\<rparr>])\<rparr>)\<rparr>))))))"

text \<open>\<^verbatim>\<open>out.trim().split('\n')[0]\<close> and the test \<^verbatim>\<open>pid && /^\d+$/.test(pid)\<close>.\<close>

definition first_line :: "string \<Rightarrow> string" where
  "first_line s = takeWhile (\<lambda>c. c \<noteq> CHR 0x0A) s"

definition is_pid :: "string \<Rightarrow> bool" where
  "is_pid s = (s \<noteq> [] \<and> list_all (in_range CHR ''0'' CHR ''9'') s)"

text \<open>Lines 340 to 347, the handler of the signalling block.\<close>

definition nudge_gateway :: "env \<Rightarrow> step list \<Rightarrow> world \<Rightarrow> step list \<times> world" where
  "nudge_gateway e steps w =
     (case event_exec e of
        Output _ \<Rightarrow> (steps @ [ReloadSignalSent], run_command SystemEvent w)
      | Throws _ \<Rightarrow> (steps @ [CouldNotSignal], run_command SystemEvent w))"

text \<open>Lines 325 to 348.\<close>

definition hot_reload :: "env \<Rightarrow> step list \<Rightarrow> world \<Rightarrow> step list \<times> world" where
  "hot_reload e steps w =
     (let steps1 = steps @ [ReloadingConfig]; w1 = run_command Pgrep w in
      case pgrep_exec e of
        Throws _ \<Rightarrow> nudge_gateway e steps1 w1
      | Output out \<Rightarrow>
          (let pid = first_line (trim out) in
           if is_pid pid then
             (case kill_exec e of
                Output _ \<Rightarrow> (steps1 @ [ConfigReloaded], run_command (Kill pid) w1)
              | Throws _ \<Rightarrow> nudge_gateway e steps1 (run_command (Kill pid) w1))
           else nudge_gateway e steps1 w1))"

section \<open>The workflow\<close>

text \<open>Lines 233 to 364: everything after the token verification.\<close>

definition complete ::
  "env \<Rightarrow> request \<Rightarrow> bool \<Rightarrow> step list \<Rightarrow> world \<Rightarrow> outcome \<times> world" where
  "complete e r telegramVerified steps w =
     (let i = agentId (name r); dn = displayName (name r) in
      case update_config e r telegramVerified steps w of (steps4, w4) \<Rightarrow>
      case update_dashboard e r steps4 w4 of (steps5, w5) \<Rightarrow>
      case hot_reload e steps5 w5 of (steps6, w6) \<Rightarrow>
        (Returned (Success
           \<lparr>res_id = i, res_name = dn, res_emoji = emoji r,
            res_workspace = join (BASE_DIR e) [i], res_model = model r,
            hasTelegram = truthy (telegramToken r),
            message =
              (if truthy (telegramToken r)
               then dn @ '' is live! Open Telegram and message the bot to start chatting.''
               else dn @ '' is live! Add a Telegram bot later to chat directly.''),
            res_steps = steps6 @ [Ready dn]\<rparr>), w6))"

text \<open>Lines 193 to 364: everything after the scaffolding.\<close>

definition integrate :: "env \<Rightarrow> request \<Rightarrow> step list \<Rightarrow> world \<Rightarrow> outcome \<times> world" where
  "integrate e r steps w =
     (case register_agent e r steps w of (steps1, w1) \<Rightarrow>
      case set_identity e r steps1 w1 of (steps2, w2) \<Rightarrow>
      case verify_token e r (steps2 @ [ConfiguringPermissions]) w2 of
        (Invalid steps3, w3) \<Rightarrow>
          (Returned (Failure ''Invalid Telegram bot token'' steps3), w3)
      | (Proceed telegramVerified steps3, w3) \<Rightarrow> complete e r telegramVerified steps3 w3)"

definition workspace_dirs :: "env \<Rightarrow> string \<Rightarrow> path list" where
  "workspace_dirs e i =
     (let workspace = join (BASE_DIR e) [i] in
      [join workspace [''memory''], join workspace [''skills''],
       join workspace [''scripts''], join workspace [''.credentials'']])"

text \<open>Lines 64 to 364: the workflow once the guards have let the request through.\<close>

definition provision :: "env \<Rightarrow> request \<Rightarrow> world \<Rightarrow> outcome \<times> world" where
  "provision e r w =
     (let i = agentId (name r); steps = [CreatingWorkspace i] in
      case mkdirs e (workspace_dirs e i) w of
        (Inl m, w1) \<Rightarrow> (Returned (Failure (''Failed to create workspace: '' @ m) steps), w1)
      | (Inr _, w1) \<Rightarrow>
          (case scaffold e r w1 of
             (Inl m, w2) \<Rightarrow> (Rejected m, w2)
           | (Inr _, w2) \<Rightarrow> integrate e r (steps @ [WritingIdentityFiles]) w2))"

text \<open>Lines 44 to 62, then the rest.\<close>

definition createAgent :: "env \<Rightarrow> request \<Rightarrow> world \<Rightarrow> outcome \<times> world" where
  "createAgent e r w =
     (let i = agentId (name r) in
      if i = [] then (Returned (Failure ''Invalid name'' [NameInvalid]), w)
      else if agent_exists e i
        then (Returned (Failure ''Agent already exists'' [AgentExists i]),
              run_command AgentsList w)
        else provision e r (run_command AgentsList w))"

section \<open>A concrete scenario\<close>

text \<open>
  The scenario of the specification: the request for \<open>Nova\<close>, an empty base directory, a
  configuration that holds only the \<open>main\<close> agent, an empty registry, and an environment in
  which every external call succeeds.
\<close>

definition nova :: request where
  "nova = \<lparr>name = ''Nova'', emoji = ''*'', soul = Some ''curious and sharp'',
           model = ''gpt-test'', telegramToken = None\<rparr>"

definition nova_bot :: request where
  "nova_bot = nova\<lparr>telegramToken := Some ''123:abc''\<rparr>"

definition main_only :: config where
  "main_only =
     \<lparr>agents = Some \<lparr>agent_list = Some [\<lparr>agent_id = ''main'', subagents = None\<rparr>]\<rparr>,
      channels = None, bindings = None, tools = None, gateway = None\<rparr>"

definition fresh_world :: world where
  "fresh_world =
     \<lparr>dirs = {}, files = Map.empty, config_file = Json main_only,
      registry_file = Json \<lparr>reg_agents = Some []\<rparr>, calls = []\<rparr>"

definition calm_env :: env where
  "calm_env =
     \<lparr>DIR = [''opt'', ''clawd-control''], BASE_DIR = [''home'', ''clawd-agents''],
      DEFAULT_WORKSPACE = [''home'', ''clawd''], HOME = [''home''],
      today = ''2026-01-01'',
      list_exec = Output (Parsed []),
      mkdir_error = (\<lambda>_. None), write_error = (\<lambda>_. None), copy_error = (\<lambda>_ _. None),
      hostname_scaffold = Output ''box'',
      add_exec = Output ''{}'', identity_exec = Output [],
      getMe_exec = Output (Parsed
        \<lparr>ok = Some True, result = Some \<lparr>username = Some ''nova_bot''\<rparr>\<rparr>),
      hostname_dashboard = Output ''box'',
      pgrep_exec = Output ''4242'', kill_exec = Output [], event_exec = Output []\<rparr>"







definition rejecting_env :: env where
  "rejecting_env =
     calm_env\<lparr>getMe_exec := Output (Parsed \<lparr>ok = Some False, result = None\<rparr>)\<rparr>"

definition unreachable_env :: env where
  "unreachable_env = calm_env\<lparr>getMe_exec := Throws ''curl failed''\<rparr>"



section \<open>Observations used in the statements\<close>

text \<open>The run passes both guards, creates the four directories and writes the documents.\<close>

definition created_world :: "env \<Rightarrow> request \<Rightarrow> world \<Rightarrow> (string + unit) \<times> world" where
  "created_world e r w =
     mkdirs e (workspace_dirs e (agentId (name r))) (run_command AgentsList w)"

definition passes_scaffolding :: "env \<Rightarrow> request \<Rightarrow> world \<Rightarrow> bool" where
  "passes_scaffolding e r w =
     (agentId (name r) \<noteq> [] \<and> \<not> agent_exists e (agentId (name r))
      \<and> fst (created_world e r w) = Inr ()
      \<and> fst (scaffold e r (snd (created_world e r w))) = Inr ())"

definition scaffolded_world :: "env \<Rightarrow> request \<Rightarrow> world \<Rightarrow> world" where
  "scaffolded_world e r w = snd (scaffold e r (snd (created_world e r w)))"

text \<open>The provider answers the identity check with a body whose \<open>ok\<close> is not truthy.\<close>

definition token_rejected :: "env \<Rightarrow> request \<Rightarrow> bool" where
  "token_rejected e r =
     (truthy (telegramToken r) \<and>
      (case getMe_exec e of
         Output (Parsed botInfo) \<Rightarrow> ok botInfo \<noteq> Some True
       | _ \<Rightarrow> False))"



text \<open>Reading \<^verbatim>\<open>config.channels.telegram.accounts[k]\<close>, the bindings and the messaging flag.\<close>

definition account_of :: "config \<Rightarrow> string \<Rightarrow> account_cfg option" where
  "account_of c k =
     (case channels c of
        None \<Rightarrow> None
      | Some ch \<Rightarrow>
          (case telegram ch of
             None \<Rightarrow> None
           | Some tg \<Rightarrow> (case accounts tg of None \<Rightarrow> None | Some acc \<Rightarrow> acc k)))"


definition a2a_flag :: "config \<Rightarrow> bool option" where
  "a2a_flag c =
     (case tools c of
        None \<Rightarrow> None
      | Some t \<Rightarrow> (case agentToAgent t of None \<Rightarrow> None | Some a \<Rightarrow> a2a_enabled a))"

section \<open>Identifier derivation\<close>



lemmas string_defs = agentId_def toLowerCase_def toLowerCase_char_def non_id_unit_def
  in_range_def displayName_def toUpperCase_def toUpperCase_char_def charAt0_def slice1_def

lemma agentId_Nova: "agentId ''Nova'' = ''nova''"
  by (simp add: string_defs)

lemma displayName_Nova: "displayName ''Nova'' = ''Nova''"
  by (simp add: string_defs)


section \<open>The document writer\<close>

text \<open>
  Claim C4. On a path that exists the document writer returns \<open>false\<close> and leaves the world
  as it is; and once a call has returned, the path exists, so a second call on the same
  path, with any content, returns \<open>false\<close> and changes nothing.
\<close>

theorem writeIfMissing_idempotent:
  "(existsSync w p \<longrightarrow> writeIfMissing e p c w = (Inr False, w)) \<and>
   (writeIfMissing e p c w = (Inr b, w') \<longrightarrow>
      existsSync w' p \<and> writeIfMissing e p d w' = (Inr False, w'))"
  by (auto simp: writeIfMissing_def writeFileSync_def existsSync_def
      split: if_splits option.splits)

theorem writeIfMissing_idempotent_witness:
  "writeIfMissing calm_env [''SOUL.md''] TasksDoc fresh_world
     = (Inr True, fresh_world\<lparr>files := (Map.empty([''SOUL.md''] \<mapsto> TasksDoc))\<rparr>)
   \<and> existsSync (fresh_world\<lparr>files := (Map.empty([''SOUL.md''] \<mapsto> TasksDoc))\<rparr>) [''SOUL.md'']
   \<and> writeIfMissing calm_env [''SOUL.md''] HeartbeatDoc
        (fresh_world\<lparr>files := (Map.empty([''SOUL.md''] \<mapsto> TasksDoc))\<rparr>)
     = (Inr False, fresh_world\<lparr>files := (Map.empty([''SOUL.md''] \<mapsto> TasksDoc))\<rparr>)"
proof -
  let ?w = "fresh_world\<lparr>files := (Map.empty([''SOUL.md''] \<mapsto> TasksDoc))\<rparr>"
  have first: "writeIfMissing calm_env [''SOUL.md''] TasksDoc fresh_world = (Inr True, ?w)"
    by (simp add: writeIfMissing_def writeFileSync_def existsSync_def fresh_world_def
        calm_env_def)
  have ex: "existsSync ?w [''SOUL.md'']" by (simp add: existsSync_def)
  from writeIfMissing_idempotent [where w = fresh_world and p = "[''SOUL.md'']"
      and e = calm_env and c = TasksDoc and b = True and w' = ?w and d = HeartbeatDoc]
    writeIfMissing_idempotent [where w = ?w and p = "[''SOUL.md'']"
      and e = calm_env and c = HeartbeatDoc and b = False and w' = ?w and d = HeartbeatDoc]
    first ex
  show ?thesis by simp
qed

section \<open>Name validation\<close>

text \<open>
  Claim C3. When the name normalises to the empty identifier, createAgent returns the
  failure \<open>Invalid name\<close> with a step log of one line, and the world is the one it started
  from: no directory, no file, no configuration or registry change, no command executed.
\<close>

theorem empty_name_no_effect:
  "agentId (name r) = [] \<Longrightarrow>
     createAgent e r w = (Returned (Failure ''Invalid name'' [NameInvalid]), w)"
  by (simp add: createAgent_def)

theorem empty_name_no_effect_witness:
  "agentId (name (nova\<lparr>name := ''?! _''\<rparr>)) = [] \<and>
   createAgent calm_env (nova\<lparr>name := ''?! _''\<rparr>) fresh_world
     = (Returned (Failure ''Invalid name'' [NameInvalid]), fresh_world)"
proof -
  have h: "agentId (name (nova\<lparr>name := ''?! _''\<rparr>)) = []"
    by (simp add: string_defs)
  from empty_name_no_effect [OF h] h show ?thesis by simp
qed

section \<open>What each step leaves unchanged\<close>

lemma run_command_fields [simp]:
  "dirs (run_command c w) = dirs w" "files (run_command c w) = files w"
  "config_file (run_command c w) = config_file w"
  "registry_file (run_command c w) = registry_file w"
  "calls (run_command c w) = calls w @ [c]"
  by (simp_all add: run_command_def)

lemma mkdirSync_frame:
  "mkdirSync e p w = (x, w') \<Longrightarrow>
     files w' = files w \<and> config_file w' = config_file w \<and>
     registry_file w' = registry_file w \<and> calls w' = calls w \<and> dirs w \<subseteq> dirs w'"
  by (auto simp: mkdirSync_def split: option.splits)

lemma mkdirSync_creates:
  "mkdirSync e p w = (Inr u, w') \<Longrightarrow> prefix q p \<Longrightarrow> q \<in> dirs w'"
  by (auto simp: mkdirSync_def in_set_prefixes split: option.splits)

lemma mkdirs_frame:
  "mkdirs e ps w = (x, w') \<Longrightarrow>
     files w' = files w \<and> config_file w' = config_file w \<and>
     registry_file w' = registry_file w \<and> calls w' = calls w \<and> dirs w \<subseteq> dirs w'"
proof (induction ps arbitrary: w)
  case Nil
  then show ?case by simp
next
  case (Cons p ps)
  obtain y v where m: "mkdirSync e p w = (y, v)" by (cases "mkdirSync e p w")
  note f = mkdirSync_frame [OF m]
  show ?case
  proof (cases y)
    case (Inl msg)
    with m f Cons.prems show ?thesis by auto
  next
    case (Inr u)
    with m Cons.prems have "mkdirs e ps v = (x, w')" by simp
    from Cons.IH [OF this] f show ?thesis by auto
  qed
qed

lemma mkdirs_creates_first:
  assumes "mkdirs e (p # ps) w = (Inr u, w')" and "prefix q p"
  shows "q \<in> dirs w'"
proof -
  obtain y v where m: "mkdirSync e p w = (y, v)" by (cases "mkdirSync e p w")
  from assms(1) m obtain u' where y: "y = Inr u'" by (cases y) simp_all
  from mkdirSync_creates [OF m [unfolded y] assms(2)] have "q \<in> dirs v" .
  moreover from assms(1) m y have "mkdirs e ps v = (Inr u, w')" by simp
  from mkdirs_frame [OF this] have "dirs v \<subseteq> dirs w'" by simp
  ultimately show ?thesis by auto
qed

lemma writeIfMissing_frame:
  "writeIfMissing e p c w = (x, w') \<Longrightarrow>
     dirs w' = dirs w \<and> config_file w' = config_file w \<and>
     registry_file w' = registry_file w \<and> calls w' = calls w"
  by (auto simp: writeIfMissing_def writeFileSync_def split: option.splits if_splits)

lemma write_docs_frame:
  "write_docs e ds w = (x, w') \<Longrightarrow>
     dirs w' = dirs w \<and> config_file w' = config_file w \<and>
     registry_file w' = registry_file w \<and> calls w' = calls w"
proof (induction ds arbitrary: w)
  case Nil
  then show ?case by simp
next
  case (Cons d ds)
  obtain p c where d: "d = (p, c)" by (cases d)
  obtain y v where m: "writeIfMissing e p c w = (y, v)" by (cases "writeIfMissing e p c w")
  note f = writeIfMissing_frame [OF m]
  show ?case
  proof (cases y)
    case (Inl msg)
    with d m f Cons.prems show ?thesis by auto
  next
    case (Inr b)
    with d m Cons.prems have "write_docs e ds v = (x, w')" by simp
    from Cons.IH [OF this] f show ?thesis by simp
  qed
qed

lemma copyFileSync_frame:
  "copyFileSync e s d w = (x, w') \<Longrightarrow>
     dirs w' = dirs w \<and> config_file w' = config_file w \<and>
     registry_file w' = registry_file w \<and> calls w' = calls w"
  by (auto simp: copyFileSync_def split: option.splits)

lemma copy_shared_frame:
  "copy_shared e ws fs w = (x, w') \<Longrightarrow>
     dirs w' = dirs w \<and> config_file w' = config_file w \<and>
     registry_file w' = registry_file w \<and> calls w' = calls w"
proof (induction fs arbitrary: w)
  case Nil
  then show ?case by simp
next
  case (Cons f fs)
  let ?src = "join (DEFAULT_WORKSPACE e) [f]" and ?dst = "join ws [f]"
  show ?case
  proof (cases "existsSync w ?src \<and> \<not> existsSync w ?dst")
    case False
    with Cons.prems have "copy_shared e ws fs w = (x, w')" by (auto simp: Let_def)
    from Cons.IH [OF this] show ?thesis .
  next
    case True
    obtain y v where m: "copyFileSync e ?src ?dst w = (y, v)"
      by (cases "copyFileSync e ?src ?dst w")
    note fr = copyFileSync_frame [OF m]
    show ?thesis
    proof (cases y)
      case (Inl msg)
      with True m fr Cons.prems show ?thesis by (auto simp: Let_def)
    next
      case (Inr b)
      with True m Cons.prems have "copy_shared e ws fs v = (x, w')" by (simp add: Let_def)
      from Cons.IH [OF this] fr show ?thesis by simp
    qed
  qed
qed

lemma scaffold_frame:
  assumes "scaffold e r w = (x, w')"
  shows "dirs w' = dirs w \<and> config_file w' = config_file w \<and>
     registry_file w' = registry_file w"
proof -
  obtain y1 w1 where a: "write_docs e (first_docs e r) w = (y1, w1)"
    by (cases "write_docs e (first_docs e r) w")
  note f1 = write_docs_frame [OF a]
  show ?thesis
  proof (cases y1)
    case (Inl m)
    with a assms f1 show ?thesis by (simp add: scaffold_def)
  next
    case y1: (Inr u1)
    show ?thesis
    proof (cases "hostname_scaffold e")
      case (Throws m)
      with a y1 assms have "w' = run_command Hostname w1" by (simp add: scaffold_def)
      with f1 show ?thesis by simp
    next
      case (Output h)
      obtain y2 w2 where b: "write_docs e (later_docs e r h) (run_command Hostname w1) = (y2, w2)"
        by (cases "write_docs e (later_docs e r h) (run_command Hostname w1)")
      note f2 = write_docs_frame [OF b]
      show ?thesis
      proof (cases y2)
        case (Inl m)
        with a y1 Output b assms f1 f2 show ?thesis by (auto simp add: scaffold_def)
      next
        case (Inr u2)
        with a y1 Output b assms
        have "copy_shared e (join (BASE_DIR e) [agentId (name r)]) [''AGENTS.md'', ''USER.md''] w2 = (x, w')"
          by (simp add: scaffold_def del: copy_shared.simps)
        from copy_shared_frame [OF this] f1 f2 show ?thesis by simp
      qed
    qed
  qed
qed

section \<open>Registration, verification and the later steps\<close>

lemma register_agent_result:
  "register_agent e r s w =
     (s @ [RegisteringWithGateway,
           case add_exec e of Output x \<Rightarrow> AgentRegistered
           | Throws m \<Rightarrow> RegistrationWarning (take 100 m)],
      run_command (AgentsAdd (agentId (name r)) (join (BASE_DIR e) [agentId (name r)]) (model r)) w)"
  by (simp add: register_agent_def Let_def split: exec.splits)

lemma set_identity_result:
  "set_identity e r s w =
     (s @ [SettingIdentity (emoji r)],
      run_command (SetIdentity (agentId (name r)) (displayName (name r)) (emoji r)) w)"
  by (simp add: set_identity_def Let_def split: exec.splits)


lemma verify_token_rejected:
  "token_rejected e r \<Longrightarrow>
     verify_token e r s w =
       (Invalid (s @ [VerifyingToken, TokenInvalid]), run_command (GetMe (token_of r)) w)"
  by (auto simp: verify_token_def token_rejected_def truthy_def token_of_def Let_def
      split: option.splits exec.splits parsed.splits)


lemma verify_token_degraded:
  "truthy (telegramToken r) \<Longrightarrow>
   getMe_exec e = Throws m \<or> getMe_exec e = Output (SyntaxError m) \<Longrightarrow>
     verify_token e r s w =
       (Proceed False (s @ [VerifyingToken, VerificationFailed (take 80 m)]),
        run_command (GetMe (token_of r)) w)"
  by (auto simp: verify_token_def truthy_def token_of_def Let_def
      split: option.splits exec.splits parsed.splits)

lemma update_config_frame:
  "update_config e r v s w = (s', w') \<Longrightarrow>
     prefix s s' \<and> files w' = files w \<and> registry_file w' = registry_file w \<and>
     dirs w \<subseteq> dirs w' \<and>
     (config_file w' = config_file w \<or>
      (\<exists>c. config_file w = Json c \<and>
           config_file w' = Json (mutate_config (agentId (name r)) v (token_of r) c)))"
  by (auto simp: update_config_def Let_def read_json_def mutate_config_def mkdirSync_def
      split: sum.splits prod.splits option.splits jfile.splits)

lemma update_dashboard_frame:
  "update_dashboard e r s w = (s', w') \<Longrightarrow>
     prefix s s' \<and> files w' = files w \<and> config_file w' = config_file w \<and> dirs w' = dirs w"
  by (auto simp: update_dashboard_def Let_def read_json_def
      split: sum.splits option.splits jfile.splits exec.splits if_splits)

lemma nudge_gateway_frame:
  "nudge_gateway e s w = (s', w') \<Longrightarrow>
     (s' = s @ [ReloadSignalSent] \<or> s' = s @ [CouldNotSignal]) \<and> files w' = files w \<and>
     config_file w' = config_file w \<and> registry_file w' = registry_file w \<and> dirs w' = dirs w"
  by (auto simp: nudge_gateway_def split: exec.splits)

lemma hot_reload_frame:
  assumes "hot_reload e s w = (s', w')"
  shows "prefix s s' \<and> files w' = files w \<and> config_file w' = config_file w \<and>
     registry_file w' = registry_file w \<and> dirs w' = dirs w"
proof -
  let ?s = "s @ [ReloadingConfig]"
  have nudge: "nudge_gateway e ?s v = (s', w') \<Longrightarrow>
      prefix s s' \<and> files w' = files v \<and> config_file w' = config_file v \<and>
      registry_file w' = registry_file v \<and> dirs w' = dirs v" for v
    using nudge_gateway_frame [of e ?s v s' w'] by auto
  show ?thesis
  proof (cases "pgrep_exec e")
    case (Throws m)
    with assms have "nudge_gateway e ?s (run_command Pgrep w) = (s', w')"
      by (simp add: hot_reload_def)
    from nudge [OF this] show ?thesis by simp
  next
    case (Output out)
    let ?pid = "first_line (trim out)"
    show ?thesis
    proof (cases "is_pid ?pid")
      case False
      with Output assms have "nudge_gateway e ?s (run_command Pgrep w) = (s', w')"
        by (simp add: hot_reload_def Let_def)
      from nudge [OF this] show ?thesis by simp
    next
      case True
      show ?thesis
      proof (cases "kill_exec e")
        case (Throws m)
        with True Output assms
        have "nudge_gateway e ?s (run_command (Kill ?pid) (run_command Pgrep w)) = (s', w')"
          by (simp add: hot_reload_def Let_def)
        from nudge [OF this] show ?thesis by simp
      next
        case k: (Output x)
        with True Output assms
        have "s' = ?s @ [ConfigReloaded]" "w' = run_command (Kill ?pid) (run_command Pgrep w)"
          by (simp_all add: hot_reload_def Let_def)
        then show ?thesis by simp
      qed
    qed
  qed
qed


lemma complete_result:
  assumes "complete e r v s w = (out, w')"
  shows "\<exists>sr. out = Returned (Success sr) \<and> prefix s (res_steps sr) \<and>
           hasTelegram sr = truthy (telegramToken r) \<and>
           message sr = (if truthy (telegramToken r)
              then displayName (name r) @ '' is live! Open Telegram and message the bot to start chatting.''
              else displayName (name r) @ '' is live! Add a Telegram bot later to chat directly.'')"
    and "files w' = files w" and "dirs w \<subseteq> dirs w'"
    and "config_file w' = config_file w \<or>
      (\<exists>c. config_file w = Json c \<and>
           config_file w' = Json (mutate_config (agentId (name r)) v (token_of r) c))"
proof -
  obtain s4 w4 where a: "update_config e r v s w = (s4, w4)"
    by (cases "update_config e r v s w")
  obtain s5 w5 where b: "update_dashboard e r s4 w4 = (s5, w5)"
    by (cases "update_dashboard e r s4 w4")
  obtain s6 w6 where c: "hot_reload e s5 w5 = (s6, w6)"
    by (cases "hot_reload e s5 w5")
  note fa = update_config_frame [OF a] and fb = update_dashboard_frame [OF b]
    and fc = hot_reload_frame [OF c]
  from assms a b c have w': "w' = w6" and out: "out = Returned (Success
           \<lparr>res_id = agentId (name r), res_name = displayName (name r), res_emoji = emoji r,
            res_workspace = join (BASE_DIR e) [agentId (name r)], res_model = model r,
            hasTelegram = truthy (telegramToken r),
            message =
              (if truthy (telegramToken r)
               then displayName (name r) @ '' is live! Open Telegram and message the bot to start chatting.''
               else displayName (name r) @ '' is live! Add a Telegram bot later to chat directly.''),
            res_steps = s6 @ [Ready (displayName (name r))]\<rparr>)"
    by (simp_all add: complete_def Let_def)
  have "prefix s s6" using fa fb fc by (meson prefix_order.trans)
  then have "prefix s (s6 @ [Ready (displayName (name r))])" by (simp add: prefix_prefix)
  with out show "\<exists>sr. out = Returned (Success sr) \<and> prefix s (res_steps sr) \<and>
           hasTelegram sr = truthy (telegramToken r) \<and>
           message sr = (if truthy (telegramToken r)
              then displayName (name r) @ '' is live! Open Telegram and message the bot to start chatting.''
              else displayName (name r) @ '' is live! Add a Telegram bot later to chat directly.'')"
    by simp
  show "files w' = files w" using w' fa fb fc by simp
  show "dirs w \<subseteq> dirs w'" using w' fa fb fc by simp
  show "config_file w' = config_file w \<or>
      (\<exists>c. config_file w = Json c \<and>
           config_file w' = Json (mutate_config (agentId (name r)) v (token_of r) c))"
    using w' fa fb fc by simp
qed

lemma integrate_rejected:
  "token_rejected e r \<Longrightarrow>
   \<exists>ss w'. integrate e r s w = (Returned (Failure ''Invalid Telegram bot token'' ss), w') \<and>
      last ss = TokenInvalid \<and>
      dirs w' = dirs w \<and> files w' = files w \<and> config_file w' = config_file w \<and>
      registry_file w' = registry_file w"
  by (simp add: integrate_def register_agent_result set_identity_result verify_token_rejected)



section \<open>Runs that get past the scaffolding\<close>

lemma createAgent_passes:
  "passes_scaffolding e r w \<Longrightarrow>
     createAgent e r w =
       integrate e r [CreatingWorkspace (agentId (name r)), WritingIdentityFiles]
         (scaffolded_world e r w)"
  by (simp add: passes_scaffolding_def createAgent_def provision_def created_world_def
      scaffolded_world_def Let_def split_beta)

lemma scaffolded_world_frame:
  assumes "passes_scaffolding e r w"
  shows "config_file (scaffolded_world e r w) = config_file w"
    and "registry_file (scaffolded_world e r w) = registry_file w"
    and "join (BASE_DIR e) [agentId (name r)] \<in> dirs (scaffolded_world e r w)"
proof -
  let ?i = "agentId (name r)"
  obtain x w1 where m: "created_world e r w = (x, w1)" by (cases "created_world e r w")
  obtain y w2 where sc: "scaffold e r w1 = (y, w2)" by (cases "scaffold e r w1")
  from assms m have x: "x = Inr ()" by (simp add: passes_scaffolding_def)
  have w2: "scaffolded_world e r w = w2" using m sc by (simp add: scaffolded_world_def)
  have mk: "mkdirs e (join (join (BASE_DIR e) [?i]) [''memory''] #
               [join (join (BASE_DIR e) [?i]) [''skills''],
                join (join (BASE_DIR e) [?i]) [''scripts''],
                join (join (BASE_DIR e) [?i]) [''.credentials'']])
            (run_command AgentsList w) = (Inr (), w1)"
    using m x by (simp add: created_world_def workspace_dirs_def Let_def)
  have "prefix (join (BASE_DIR e) [?i]) (join (join (BASE_DIR e) [?i]) [''memory''])"
    by (simp add: join_def)
  from mkdirs_creates_first [OF mk this] have d: "join (BASE_DIR e) [?i] \<in> dirs w1" .
  from mkdirs_frame [OF mk] have f1: "config_file w1 = config_file w"
    "registry_file w1 = registry_file w" by simp_all
  note f2 = scaffold_frame [OF sc]
  show "config_file (scaffolded_world e r w) = config_file w" using w2 f1 f2 by simp
  show "registry_file (scaffolded_world e r w) = registry_file w" using w2 f1 f2 by simp
  show "join (BASE_DIR e) [?i] \<in> dirs (scaffolded_world e r w)" using w2 d f2 by simp
qed

lemma createAgent_success_passes:
  assumes "fst (createAgent e r w) = Returned (Success sr)"
  shows "passes_scaffolding e r w"
proof -
  let ?i = "agentId (name r)"
  from assms have i: "?i \<noteq> []" by (auto simp: createAgent_def Let_def)
  from assms i have ex: "\<not> agent_exists e ?i" by (auto simp: createAgent_def Let_def)
  from assms i ex have p: "fst (provision e r (run_command AgentsList w)) = Returned (Success sr)"
    by (simp add: createAgent_def Let_def)
  obtain x w1 where m: "created_world e r w = (x, w1)" by (cases "created_world e r w")
  obtain y w2 where sc: "scaffold e r w1 = (y, w2)" by (cases "scaffold e r w1")
  from p m have x: "x = Inr ()"
    by (cases x) (simp_all add: provision_def created_world_def Let_def)
  from p m x sc have y: "y = Inr ()"
    by (cases y) (simp_all add: provision_def created_world_def Let_def)
  from i ex m x sc y show ?thesis by (simp add: passes_scaffolding_def)
qed

text \<open>
  Claim C1. Take a request with a non-empty identifier and a channel token, in a run that
  gets as far as the identity check (no conflicting agent, the directories created, the
  documents written). If the provider's call returns a body whose \<open>ok\<close> is false, then
  createAgent returns the failure \<open>Invalid Telegram bot token\<close>, the configuration file is
  what it was (no account, no binding added), and the workspace directory exists.
\<close>

theorem invalid_token_aborts:
  assumes "agentId (name r) \<noteq> []" and "passes_scaffolding e r w"
    and "truthy (telegramToken r)"
    and "getMe_exec e = Output (Parsed botInfo)" and "ok botInfo = Some False"
  shows "(\<exists>ss. fst (createAgent e r w) = Returned (Failure ''Invalid Telegram bot token'' ss)) \<and>
    config_file (snd (createAgent e r w)) = config_file w \<and>
    join (BASE_DIR e) [agentId (name r)] \<in> dirs (snd (createAgent e r w))"
proof -
  from assms(3-5) have rej: "token_rejected e r" by (simp add: token_rejected_def)
  note sw = scaffolded_world_frame [OF assms(2)]
  from integrate_rejected [OF rej, of "[CreatingWorkspace (agentId (name r)), WritingIdentityFiles]"
      "scaffolded_world e r w"] createAgent_passes [OF assms(2)] sw
  show ?thesis by auto
qed

section \<open>The existence guard\<close>


section \<open>Failures while scaffolding\<close>






lemma first_later_disjoint: "p \<in> fst ` set (later_docs e r h) \<Longrightarrow> p \<notin> fst ` set (first_docs e r)"
  by (auto simp: first_docs_def later_docs_def join_def Let_def)



section \<open>Degraded verification\<close>

lemma mutate_config_unverified:
  "channels (mutate_config i False tok c) = channels c \<and>
   bindings (mutate_config i False tok c) = bindings c"
  by (simp add: mutate_config_def bind_telegram_def enable_agentToAgent_def cross_agent_def
      Let_def split: option.splits)

text \<open>
  Claim C10. In a successful run with a channel token whose verification call threw or
  returned unparsable output, the result has \<open>hasTelegram\<close> true and the message that
  invites to open Telegram, the log holds the verification warning, and the configuration
  file is either untouched or rewritten with the same channels and bindings as before.
\<close>

theorem degraded_verification_flag:
  assumes "truthy (telegramToken r)"
    and "getMe_exec e = Throws m \<or> getMe_exec e = Output (SyntaxError m)"
    and "createAgent e r w = (Returned (Success sr), w')"
  shows "hasTelegram sr \<and>
    message sr =
      displayName (name r) @ '' is live! Open Telegram and message the bot to start chatting.'' \<and>
    VerificationFailed (take 80 m) \<in> set (res_steps sr) \<and>
    (config_file w' = config_file w \<or>
     (\<exists>c c'. config_file w = Json c \<and> config_file w' = Json c' \<and>
        channels c' = channels c \<and> bindings c' = bindings c))"
proof -
  let ?s0 = "[CreatingWorkspace (agentId (name r)), WritingIdentityFiles]"
  let ?s = "?s0 @ [RegisteringWithGateway,
           case add_exec e of Output x \<Rightarrow> AgentRegistered
           | Throws m \<Rightarrow> RegistrationWarning (take 100 m), SettingIdentity (emoji r),
           ConfiguringPermissions]"
  let ?w = "run_command (SetIdentity (agentId (name r)) (displayName (name r)) (emoji r))
         (run_command (AgentsAdd (agentId (name r)) (join (BASE_DIR e) [agentId (name r)])
            (model r)) (scaffolded_world e r w))"
  from assms(3) have "fst (createAgent e r w) = Returned (Success sr)" by simp
  then have pass: "passes_scaffolding e r w" by (rule createAgent_success_passes)
  note sw = scaffolded_world_frame [OF pass]
  have v: "verify_token e r ?s ?w =
       (Proceed False (?s @ [VerifyingToken, VerificationFailed (take 80 m)]),
        run_command (GetMe (token_of r)) ?w)"
    by (rule verify_token_degraded [OF assms(1,2)])
  have "createAgent e r w =
      complete e r False (?s @ [VerifyingToken, VerificationFailed (take 80 m)])
        (run_command (GetMe (token_of r)) ?w)"
    using createAgent_passes [OF pass] v
    by (simp add: integrate_def register_agent_result set_identity_result)
  with assms(3) have c: "complete e r False (?s @ [VerifyingToken, VerificationFailed (take 80 m)])
        (run_command (GetMe (token_of r)) ?w) = (Returned (Success sr), w')" by simp
  note cr = complete_result [OF c]
  from cr(1) assms(1) have a: "hasTelegram sr" and b: "message sr =
      displayName (name r) @ '' is live! Open Telegram and message the bot to start chatting.''"
    and p: "prefix (?s @ [VerifyingToken, VerificationFailed (take 80 m)]) (res_steps sr)"
    by simp_all
  from set_mono_prefix [OF p] have d: "VerificationFailed (take 80 m) \<in> set (res_steps sr)"
    by auto
  from cr(4) sw(1) mutate_config_unverified
  have "config_file w' = config_file w \<or>
     (\<exists>c c'. config_file w = Json c \<and> config_file w' = Json c' \<and>
        channels c' = channels c \<and> bindings c' = bindings c)"
    by auto
  with a b d show ?thesis by simp
qed


section \<open>Best-effort steps\<close>





















section \<open>The configuration mutation\<close>

lemma grant_spawn_id [simp]: "agent_id (grant_spawn i a) = agent_id a"
  by (simp add: grant_spawn_def Let_def)

lemma spawn_back_id [simp]: "agent_id (spawn_back a) = agent_id a"
  by (simp add: spawn_back_def Let_def)





lemma spawn_back_grant_main:
  "spawn_back (grant_spawn ''main'' (spawn_back a)) = spawn_back a"
  by (simp add: spawn_back_def grant_spawn_def Let_def split: option.splits)










lemma cross_agent_fields [simp]:
  "channels (cross_agent i c) = channels c" "bindings (cross_agent i c) = bindings c"
  "tools (cross_agent i c) = tools c" "gateway (cross_agent i c) = gateway c"
  by (simp_all add: cross_agent_def split: option.splits)

lemma bind_telegram_fields [simp]:
  "agents (bind_telegram i v t c) = agents c" "tools (bind_telegram i v t c) = tools c"
  "gateway (bind_telegram i v t c) = gateway c"
  by (simp_all add: bind_telegram_def Let_def)

lemma enable_fields [simp]:
  "agents (enable_agentToAgent c) = agents c" "channels (enable_agentToAgent c) = channels c"
  "bindings (enable_agentToAgent c) = bindings c" "gateway (enable_agentToAgent c) = gateway c"
  by (simp_all add: enable_agentToAgent_def Let_def)

lemma binds_new_binding [simp]: "binds i (new_binding i)"
  by (simp add: binds_def new_binding_def)



lemma a2a_flag_enable [simp]: "a2a_flag (enable_agentToAgent c) = Some True"
  by (simp add: enable_agentToAgent_def a2a_flag_def Let_def)

lemma account_of_bind [simp]: "account_of (bind_telegram i True t c) i = Some (new_account t)"
  by (simp add: bind_telegram_def account_of_def Let_def)















section \<open>Concrete runs\<close>

lemmas fs_defs = created_world_def workspace_dirs_def mkdirSync_def join_def
  run_command_def scaffold_def first_docs_def later_docs_def writeIfMissing_def
  writeFileSync_def existsSync_def copyFileSync_def agent_exists_def

lemmas flow_defs = createAgent_def provision_def integrate_def complete_def
  register_agent_def set_identity_def verify_token_def update_config_def
  update_dashboard_def hot_reload_def nudge_gateway_def read_json_def
  configPath_def registryPath_def trim_def first_line_def is_pid_def is_space_def
  in_range_def truthy_def token_of_def

lemmas scenario_defs = calm_env_def nova_def nova_bot_def fresh_world_def agentId_Nova
  displayName_Nova

lemma nova_passes:
  "list_exec e = list_exec calm_env \<Longrightarrow> mkdir_error e = mkdir_error calm_env \<Longrightarrow>
   write_error e = write_error calm_env \<Longrightarrow> copy_error e = copy_error calm_env \<Longrightarrow>
   hostname_scaffold e = hostname_scaffold calm_env \<Longrightarrow> BASE_DIR e = BASE_DIR calm_env \<Longrightarrow>
   DEFAULT_WORKSPACE e = DEFAULT_WORKSPACE calm_env \<Longrightarrow>
   agentId (name r) = ''nova'' \<Longrightarrow>
   files w = Map.empty \<Longrightarrow> dirs w = {} \<Longrightarrow>
     passes_scaffolding e r w"
  by (simp add: passes_scaffolding_def fs_defs calm_env_def Let_def)

theorem invalid_token_aborts_witness:
  "agentId (name nova_bot) \<noteq> [] \<and>
   passes_scaffolding rejecting_env nova_bot fresh_world \<and>
   truthy (telegramToken nova_bot) \<and>
   getMe_exec rejecting_env = Output (Parsed \<lparr>ok = Some False, result = None\<rparr>) \<and>
   (\<exists>ss. fst (createAgent rejecting_env nova_bot fresh_world) =
      Returned (Failure ''Invalid Telegram bot token'' ss)) \<and>
   config_file (snd (createAgent rejecting_env nova_bot fresh_world)) = Json main_only \<and>
   [''home'', ''clawd-agents'', ''nova'']
     \<in> dirs (snd (createAgent rejecting_env nova_bot fresh_world))"
proof -
  have i: "agentId (name nova_bot) \<noteq> []" by (simp add: scenario_defs)
  have p: "passes_scaffolding rejecting_env nova_bot fresh_world"
    by (rule nova_passes) (simp_all add: rejecting_env_def scenario_defs)
  have t: "truthy (telegramToken nova_bot)" by (simp add: truthy_def nova_bot_def)
  have g: "getMe_exec rejecting_env = Output (Parsed \<lparr>ok = Some False, result = None\<rparr>)"
    by (simp add: rejecting_env_def calm_env_def)
  from invalid_token_aborts [OF i p t g] i p t g show ?thesis
    by (simp add: rejecting_env_def scenario_defs join_def)
qed






lemma unreachable_run:
  "fst (createAgent unreachable_env nova_bot fresh_world) =
     Returned (Success
       \<lparr>res_id = ''nova'', res_name = ''Nova'', res_emoji = ''*'',
        res_workspace = [''home'', ''clawd-agents'', ''nova''],
        res_model = ''gpt-test'', hasTelegram = True,
        message = ''Nova is live! Open Telegram and message the bot to start chatting.'',
        res_steps =
          [CreatingWorkspace ''nova'', WritingIdentityFiles,
           RegisteringWithGateway, AgentRegistered, SettingIdentity ''*'',
           ConfiguringPermissions, VerifyingToken, VerificationFailed ''curl failed'',
           PermissionsConfigured, BindingSkipped,
           AddingToControl, DashboardUpdated, ReloadingConfig,
           ConfigReloaded, Ready ''Nova'']\<rparr>)"
  by (simp add: flow_defs fs_defs unreachable_env_def scenario_defs Let_def)

theorem degraded_verification_flag_witness:
  "truthy (telegramToken nova_bot) \<and>
   getMe_exec unreachable_env = Throws ''curl failed'' \<and>
   result_ok (fst (createAgent unreachable_env nova_bot fresh_world)) \<and>
   hasTelegram (case fst (createAgent unreachable_env nova_bot fresh_world) of
                  Returned (Success sr) \<Rightarrow> sr) \<and>
   VerificationFailed ''curl failed'' \<in>
     set (steps_of (fst (createAgent unreachable_env nova_bot fresh_world))) \<and>
   (config_file (snd (createAgent unreachable_env nova_bot fresh_world)) = Json main_only \<or>
    (\<exists>c'. config_file (snd (createAgent unreachable_env nova_bot fresh_world)) = Json c' \<and>
       channels c' = None \<and> bindings c' = None))"
proof -
  let ?sr = "\<lparr>res_id = ''nova'', res_name = ''Nova'', res_emoji = ''*'',
        res_workspace = [''home'', ''clawd-agents'', ''nova''],
        res_model = ''gpt-test'', hasTelegram = True,
        message = ''Nova is live! Open Telegram and message the bot to start chatting.'',
        res_steps =
          [CreatingWorkspace ''nova'', WritingIdentityFiles,
           RegisteringWithGateway, AgentRegistered, SettingIdentity ''*'',
           ConfiguringPermissions, VerifyingToken, VerificationFailed ''curl failed'',
           PermissionsConfigured, BindingSkipped,
           AddingToControl, DashboardUpdated, ReloadingConfig,
           ConfigReloaded, Ready ''Nova'']\<rparr>"
  have t: "truthy (telegramToken nova_bot)" by (simp add: truthy_def nova_bot_def)
  have g: "getMe_exec unreachable_env = Throws ''curl failed'' \<or>
           getMe_exec unreachable_env = Output (SyntaxError ''curl failed'')"
    by (simp add: unreachable_env_def calm_env_def)
  have c: "createAgent unreachable_env nova_bot fresh_world =
      (Returned (Success ?sr), snd (createAgent unreachable_env nova_bot fresh_world))"
    using unreachable_run by (simp add: prod_eq_iff)
  from degraded_verification_flag [OF t g c] t g unreachable_run
  show ?thesis by (auto simp: unreachable_env_def calm_env_def fresh_world_def main_only_def)
qed






end
